theory Spec2Isabelle
  imports Main "HOL-Library.AList"
begin

section \<open>The VOLTTRON auth service: errors, authorization types, collaborators\<close>

text \<open>
  The development follows \<^verbatim>\<open>src/volttron/services/auth/auth_service.py\<close>.
  Python exceptions are values of the type \<open>error\<close>; an operation of the service
  takes the state and returns its outcome together with the state it leaves behind
  (mutations made before an exception is raised persist, as in Python).
\<close>

datatype error =
    IdentityNotFound
  | Unreachable
  | RemoteError
  | TypeError
  | AttributeError
  | NotFound
  | InvalidPattern
  | OtherError string

type_synonym identity = string

subsection \<open>The pattern classifier\<close>

text \<open>
  \<^verbatim>\<open>def isregex(obj): return len(obj) > 1 and obj[0] == obj[-1] == "/"\<close>

  The chained comparison reads \<open>obj[0] == obj[-1] and obj[-1] == "/"\<close>; the
  conjunction is short-circuited, so no index is read unless the length exceeds one.
\<close>

definition isregex :: "string \<Rightarrow> bool" where
  "isregex obj =
     (if length obj > 1
      then obj ! 0 = obj ! (length obj - 1) \<and> obj ! (length obj - 1) = CHR ''/''
      else False)"

subsection \<open>Authorization types\<close>

text \<open>
  The classes of \<^verbatim>\<open>volttron.types.auth.authz_types\<close> are declared outside this
  repository; they are taken as the service uses them. \<^verbatim>\<open>RPCCapabilities\<close>,
  \<^verbatim>\<open>PubsubCapabilities\<close> and \<^verbatim>\<open>AgentRoles\<close> wrap lists; an omitted keyword
  argument is \<open>None\<close>. A \<open>param_restrictions\<close> dictionary is an association list.
\<close>

type_synonym vipid_dot_rpc_method = string

datatype RPCCapability =
  RPCCapability (resource: string) (rpc_param_restrictions: "(string \<times> string) list")

datatype PubsubCapability =
  PubsubCapability (topic_pattern: string) (topic_access: string)

datatype AgentRole =
  AgentRole (role_name: string) (param_restrictions: "(string \<times> string) list")

type_synonym RPCCapabilities = "RPCCapability list"
type_synonym PubsubCapabilities = "PubsubCapability list"
type_synonym AgentRoles = "AgentRole list"

datatype capability = RPC RPCCapability | PubSub PubsubCapability

text \<open>Python truthiness of an optional set: \<open>None\<close> and the empty set are false.\<close>

fun truthy :: "'a set option \<Rightarrow> bool" where
  "truthy None = False"
| "truthy (Some A) = (A \<noteq> {})"

text \<open>The members of an optional set argument.\<close>

fun set_arg :: "'a set option \<Rightarrow> 'a set" where
  "set_arg None = {}"
| "set_arg (Some A) = A"

subsection \<open>Collaborators\<close>

text \<open>
  The service reaches its collaborators through interfaces (\<^verbatim>\<open>CredentialsStore\<close>,
  \<^verbatim>\<open>CredentialsCreator\<close>, \<^verbatim>\<open>AuthorizationManager\<close>); they are parameters of the
  model. Every call may raise, and returns the collaborator's state after the call. The
  state \<open>'cs\<close> covers the credentials store and the credentials creator.
\<close>

record ('cs, 'cred) credentials_api =
  retrieve_credentials :: "identity \<Rightarrow> 'cs \<Rightarrow> (error + 'cred) \<times> 'cs"
  store_credentials :: "'cred \<Rightarrow> 'cs \<Rightarrow> (error + unit) \<times> 'cs"
  remove_credentials :: "identity \<Rightarrow> 'cs \<Rightarrow> (error + unit) \<times> 'cs"
  creator_create :: "identity \<Rightarrow> 'cs \<Rightarrow> (error + 'cred) \<times> 'cs"

record 'az authorization_manager =
  m_create_or_merge_role ::
    "string \<Rightarrow> RPCCapabilities option \<Rightarrow> PubsubCapabilities option \<Rightarrow> 'az
       \<Rightarrow> (error + bool) \<times> 'az"
  m_create_or_merge_agent_group ::
    "string \<Rightarrow> identity set \<Rightarrow> AgentRoles option \<Rightarrow> RPCCapabilities option
       \<Rightarrow> PubsubCapabilities option \<Rightarrow> 'az \<Rightarrow> (error + bool) \<times> 'az"
  m_create_or_merge_agent_authz ::
    "identity \<Rightarrow> vipid_dot_rpc_method set option \<Rightarrow> AgentRoles option
       \<Rightarrow> RPCCapabilities option \<Rightarrow> PubsubCapabilities option \<Rightarrow> string option \<Rightarrow> 'az
       \<Rightarrow> (error + bool) \<times> 'az"
  m_get_agent_capabilities :: "identity \<Rightarrow> 'az \<Rightarrow> (error + capability set) \<times> 'az"
  m_get_protected_rpcs :: "identity \<Rightarrow> 'az \<Rightarrow> (error + vipid_dot_rpc_method set) \<times> 'az"
  m_check_rpc_authorization ::
    "identity \<Rightarrow> vipid_dot_rpc_method \<Rightarrow> (string \<rightharpoonup> string) \<Rightarrow> 'az \<Rightarrow> (error + bool) \<times> 'az"
  m_remove_agent_authorization :: "identity \<Rightarrow> 'az \<Rightarrow> (error + bool) \<times> 'az"

text \<open>
  A remote call \<^verbatim>\<open>self.vip.rpc.call(peer, method, args).get(timeout=t)\<close>. What the
  peer answers is decided by the environment: \<open>None\<close> when the call returns, the
  exception otherwise.
\<close>

record rpc_call =
  peer :: identity
  rpc_method :: string
  rpc_args :: "vipid_dot_rpc_method set"
  timeout :: nat

type_synonym rpc_env = "rpc_call \<Rightarrow> error option"

text \<open>
  The identities of \<^verbatim>\<open>volttron.client.known_identities\<close> are constants of another
  package; they are parameters.
\<close>

record known_identities =
  CONFIGURATION_STORE :: identity
  AUTH :: identity
  CONTROL_CONNECTION :: identity
  CONTROL :: identity
  PLATFORM :: identity
  PLATFORM_HEALTH :: identity

subsection \<open>The service\<close>

text \<open>
  \<open>authz_manager\<close> is \<open>None\<close> when no Authorization Manager is configured
  (\<^verbatim>\<open>self._authz_manager is None\<close>); calling a method on it then raises
  \<^verbatim>\<open>AttributeError\<close>. \<open>peers_list\<close> is \<^verbatim>\<open>self.vip.peerlist.peers_list\<close>, and
  \<open>rpc_calls\<close> records the remote calls the service has issued, oldest first.
\<close>

record ('cs, 'az) auth_service =
  credentials_store :: 'cs
  authz_manager :: "'az option"
  peers_list :: "identity list"
  rpc_calls :: "rpc_call list"

definition volttron_services :: "known_identities \<Rightarrow> identity list" where
  "volttron_services K =
     [CONFIGURATION_STORE K, AUTH K, CONTROL_CONNECTION K, CONTROL K, PLATFORM K,
      PLATFORM_HEALTH K]"

text \<open>The first loop of \<^verbatim>\<open>__init__\<close>: create credentials only where none are found.\<close>

fun ensure_credentials ::
  "('cs, 'cred) credentials_api \<Rightarrow> identity list \<Rightarrow> 'cs \<Rightarrow> (error + unit) \<times> 'cs" where
  "ensure_credentials C [] cs = (Inr (), cs)"
| "ensure_credentials C (k # ks) cs =
     (case retrieve_credentials C k cs of
        (Inr creds, cs1) \<Rightarrow> ensure_credentials C ks cs1
      | (Inl e, cs1) \<Rightarrow>
          if e = IdentityNotFound then
            (case creator_create C k cs1 of
               (Inl e2, cs2) \<Rightarrow> (Inl e2, cs2)
             | (Inr creds, cs2) \<Rightarrow>
                 (case store_credentials C creds cs2 of
                    (Inl e3, cs3) \<Rightarrow> (Inl e3, cs3)
                  | (Inr u, cs3) \<Rightarrow> ensure_credentials C ks cs3))
          else (Inl e, cs1))"

definition init_comment :: string where
  "init_comment = ''Automatically added by init of auth service''"

definition config_store_protected_rpcs :: "vipid_dot_rpc_method set" where
  "config_store_protected_rpcs =
     {''set_config'', ''delete_config'', ''delete_store'', ''initialize_configs'',
      ''config_update'', ''initial_config''}"

definition auth_protected_rpcs :: "vipid_dot_rpc_method set" where
  "auth_protected_rpcs =
     {''create_agent'', ''remove_agent'', ''create_or_merge_role'',
      ''create_or_merge_agent_group'', ''create_or_merge_agent_authz'',
      ''create_protected_topics'', ''remove_agents_from_group'', ''add_agents_to_group'',
      ''remove_protected_topics'', ''remove_agent_authorization'',
      ''remove_agent_group'', ''remove_role''}"

text \<open>
  The loop over \<^verbatim>\<open>volttron_services\<close> that seeds the protected methods. The second
  test is an \<^verbatim>\<open>if\<close>, not an \<^verbatim>\<open>elif\<close>: for the configuration store both its own
  branch and the final \<^verbatim>\<open>else\<close> branch run.
\<close>

fun seed_agent_authz ::
  "'az authorization_manager \<Rightarrow> known_identities \<Rightarrow> identity list \<Rightarrow> 'az
     \<Rightarrow> (error + unit) \<times> 'az" where
  "seed_agent_authz M K [] az = (Inr (), az)"
| "seed_agent_authz M K (k # ks) az =
     (case (if k = CONFIGURATION_STORE K
            then m_create_or_merge_agent_authz M k (Some config_store_protected_rpcs)
                   None None None (Some init_comment) az
            else (Inr True, az)) of
        (Inl e, az1) \<Rightarrow> (Inl e, az1)
      | (Inr r1, az1) \<Rightarrow>
          (case (if k = AUTH K
                 then m_create_or_merge_agent_authz M k (Some auth_protected_rpcs)
                        None None None (Some init_comment) az1
                 else m_create_or_merge_agent_authz M k None
                        None None None (Some init_comment) az1) of
             (Inl e, az2) \<Rightarrow> (Inl e, az2)
           | (Inr r2, az2) \<Rightarrow> seed_agent_authz M K ks az2))"

definition default_rpc_capabilities_role :: "known_identities \<Rightarrow> RPCCapabilities" where
  "default_rpc_capabilities_role K =
     [RPCCapability (CONFIGURATION_STORE K @ ''.initialize_configs'') [],
      RPCCapability (CONFIGURATION_STORE K @ ''.set_config'') [],
      RPCCapability (CONFIGURATION_STORE K @ ''.delete_store'') [],
      RPCCapability (CONFIGURATION_STORE K @ ''.delete_config'') []]"

definition sync_agent_config_role :: RPCCapabilities where
  "sync_agent_config_role =
     [RPCCapability ''config.store.config_update'' [],
      RPCCapability ''config.store.initial_update'' []]"

text \<open>The block of \<^verbatim>\<open>__init__\<close> guarded by \<^verbatim>\<open>self._authz_manager is not None\<close>.\<close>

definition seed_default_policy ::
  "'az authorization_manager \<Rightarrow> known_identities \<Rightarrow> 'az \<Rightarrow> (error + unit) \<times> 'az" where
  "seed_default_policy M K az =
     (case m_create_or_merge_role M ''default_rpc_capabilities''
             (Some (default_rpc_capabilities_role K)) None az of
        (Inl e, az1) \<Rightarrow> (Inl e, az1)
      | (Inr r1, az1) \<Rightarrow>
     (case m_create_or_merge_role M ''sync_agent_config''
             (Some sync_agent_config_role) None az1 of
        (Inl e, az2) \<Rightarrow> (Inl e, az2)
      | (Inr r2, az2) \<Rightarrow>
     (case m_create_or_merge_role M ''admin''
             (Some [RPCCapability ''/.*/'' []])
             (Some [PubsubCapability ''/.*/'' ''pubsub'']) az2 of
        (Inl e, az3) \<Rightarrow> (Inl e, az3)
      | (Inr r3, az3) \<Rightarrow>
     (case seed_agent_authz M K (volttron_services K) az3 of
        (Inl e, az4) \<Rightarrow> (Inl e, az4)
      | (Inr u, az4) \<Rightarrow>
     (case m_create_or_merge_agent_group M ''admin_users'' (set (volttron_services K))
             (Some [AgentRole ''admin'' []]) None None az4 of
        (Inl e, az5) \<Rightarrow> (Inl e, az5)
      | (Inr r5, az5) \<Rightarrow> (Inr (), az5))))))"

text \<open>
  \<^verbatim>\<open>VolttronAuthService.__init__\<close>, up to the retrieval of the service's own
  credentials (which the base class then receives).
\<close>

definition init ::
  "('cs, 'cred) credentials_api \<Rightarrow> 'az authorization_manager \<Rightarrow> known_identities
     \<Rightarrow> ('cs, 'az) auth_service \<Rightarrow> (error + 'cred) \<times> ('cs, 'az) auth_service" where
  "init C M K s =
     (case ensure_credentials C (volttron_services K) (credentials_store s) of
        (Inl e, cs1) \<Rightarrow> (Inl e, s\<lparr>credentials_store := cs1\<rparr>)
      | (Inr u, cs1) \<Rightarrow>
     (case (case authz_manager s of
              None \<Rightarrow> (Inr (), None)
            | Some az \<Rightarrow>
                (case seed_default_policy M K az of (r, az') \<Rightarrow> (r, Some az'))) of
        (Inl e, m1) \<Rightarrow> (Inl e, s\<lparr>credentials_store := cs1, authz_manager := m1\<rparr>)
      | (Inr u', m1) \<Rightarrow>
     (case retrieve_credentials C (AUTH K) cs1 of
        (r, cs2) \<Rightarrow> (r, s\<lparr>credentials_store := cs2, authz_manager := m1\<rparr>))))"

definition default_protected_rpcs :: "vipid_dot_rpc_method set" where
  "default_protected_rpcs =
     {''config.update'', ''config.initial_update'', ''rpc.add_protected_rpcs'',
      ''rpc.remove_protected_rpcs''}"

text \<open>\<^verbatim>\<open>create_agent\<close> (the keyword arguments passed through are left out).\<close>

definition create_agent ::
  "('cs, 'cred) credentials_api \<Rightarrow> 'az authorization_manager \<Rightarrow> identity
     \<Rightarrow> ('cs, 'az) auth_service \<Rightarrow> (error + bool) \<times> ('cs, 'az) auth_service" where
  "create_agent C M identity s =
     (case (case retrieve_credentials C identity (credentials_store s) of
              (Inr creds, cs1) \<Rightarrow> (Inr (), cs1)
            | (Inl e, cs1) \<Rightarrow>
                if e = IdentityNotFound then
                  (case creator_create C identity cs1 of
                     (Inl e2, cs2) \<Rightarrow> (Inl e2, cs2)
                   | (Inr creds, cs2) \<Rightarrow> store_credentials C creds cs2)
                else (Inl e, cs1)) of
        (Inl e, cs') \<Rightarrow> (Inl e, s\<lparr>credentials_store := cs'\<rparr>)
      | (Inr u, cs') \<Rightarrow>
     (case authz_manager s of
        None \<Rightarrow> (Inl AttributeError, s\<lparr>credentials_store := cs'\<rparr>)
      | Some az \<Rightarrow>
     (case m_get_agent_capabilities M identity az of
        (Inl e, az1) \<Rightarrow> (Inl e, s\<lparr>credentials_store := cs', authz_manager := Some az1\<rparr>)
      | (Inr caps, az1) \<Rightarrow>
          if caps = {} then
            (case m_create_or_merge_agent_authz M identity (Some default_protected_rpcs)
                    (Some [AgentRole ''default_rpc_capabilities'' [(''identity'', identity)]])
                    None None (Some ''default authorization for new user'') az1 of
               (Inl e, az2) \<Rightarrow>
                 (Inl e, s\<lparr>credentials_store := cs', authz_manager := Some az2\<rparr>)
             | (Inr r, az2) \<Rightarrow>
                 (Inr True, s\<lparr>credentials_store := cs', authz_manager := Some az2\<rparr>))
          else (Inr True, s\<lparr>credentials_store := cs', authz_manager := Some az1\<rparr>))))"

text \<open>\<^verbatim>\<open>remove_agent\<close>: the credentials first, then the authorization record.\<close>

definition remove_agent ::
  "('cs, 'cred) credentials_api \<Rightarrow> 'az authorization_manager \<Rightarrow> identity
     \<Rightarrow> ('cs, 'az) auth_service \<Rightarrow> (error + bool) \<times> ('cs, 'az) auth_service" where
  "remove_agent C M identity s =
     (case remove_credentials C identity (credentials_store s) of
        (Inl e, cs1) \<Rightarrow> (Inl e, s\<lparr>credentials_store := cs1\<rparr>)
      | (Inr u, cs1) \<Rightarrow>
     (case authz_manager s of
        None \<Rightarrow> (Inl AttributeError, s\<lparr>credentials_store := cs1\<rparr>)
      | Some az \<Rightarrow>
     (case m_remove_agent_authorization M identity az of
        (Inl e, az1) \<Rightarrow> (Inl e, s\<lparr>credentials_store := cs1, authz_manager := Some az1\<rparr>)
      | (Inr r, az1) \<Rightarrow>
          (Inr True, s\<lparr>credentials_store := cs1, authz_manager := Some az1\<rparr>))))"

text \<open>\<^verbatim>\<open>get_protected_rpcs\<close> and \<^verbatim>\<open>check_rpc_authorization\<close> delegate.\<close>

definition get_protected_rpcs ::
  "'az authorization_manager \<Rightarrow> identity \<Rightarrow> ('cs, 'az) auth_service
     \<Rightarrow> (error + vipid_dot_rpc_method set) \<times> ('cs, 'az) auth_service" where
  "get_protected_rpcs M identity s =
     (case authz_manager s of
        None \<Rightarrow> (Inl AttributeError, s)
      | Some az \<Rightarrow>
          (case m_get_protected_rpcs M identity az of
             (r, az1) \<Rightarrow> (r, s\<lparr>authz_manager := Some az1\<rparr>)))"

definition check_rpc_authorization ::
  "'az authorization_manager \<Rightarrow> identity \<Rightarrow> vipid_dot_rpc_method \<Rightarrow> (string \<rightharpoonup> string)
     \<Rightarrow> ('cs, 'az) auth_service \<Rightarrow> (error + bool) \<times> ('cs, 'az) auth_service" where
  "check_rpc_authorization M identity method_name method_args s =
     (case authz_manager s of
        None \<Rightarrow> (Inl AttributeError, s)
      | Some az \<Rightarrow>
          (case m_check_rpc_authorization M identity method_name method_args az of
             (r, az1) \<Rightarrow> (r, s\<lparr>authz_manager := Some az1\<rparr>)))"

text \<open>
  \<^verbatim>\<open>create_or_merge_agent_authz\<close>. The remote call is recorded in \<open>rpc_calls\<close> when
  it is issued. \<^verbatim>\<open>Unreachable\<close> is caught and logged. The handler of
  \<^verbatim>\<open>RemoteError\<close> executes \<^verbatim>\<open>raise (message, e)\<close>: raising a tuple is a
  \<^verbatim>\<open>TypeError\<close> in Python 3. Any other exception of the call propagates.
\<close>

definition add_protected_rpcs_call :: "identity \<Rightarrow> vipid_dot_rpc_method set \<Rightarrow> rpc_call" where
  "add_protected_rpcs_call identity protected_rpcs =
     \<lparr>peer = identity, rpc_method = ''rpc.add_protected_rpcs'',
      rpc_args = protected_rpcs, timeout = 5\<rparr>"

definition create_or_merge_agent_authz ::
  "'az authorization_manager \<Rightarrow> rpc_env \<Rightarrow> identity \<Rightarrow> vipid_dot_rpc_method set option
     \<Rightarrow> AgentRoles option \<Rightarrow> RPCCapabilities option \<Rightarrow> PubsubCapabilities option
     \<Rightarrow> string option \<Rightarrow> ('cs, 'az) auth_service
     \<Rightarrow> (error + bool) \<times> ('cs, 'az) auth_service" where
  "create_or_merge_agent_authz M env identity protected_rpcs roles rpc_capabilities
       pubsub_capabilities comments s =
     (case authz_manager s of
        None \<Rightarrow> (Inl AttributeError, s)
      | Some az \<Rightarrow>
     (case m_create_or_merge_agent_authz M identity protected_rpcs roles rpc_capabilities
             pubsub_capabilities comments az of
        (Inl e, az1) \<Rightarrow> (Inl e, s\<lparr>authz_manager := Some az1\<rparr>)
      | (Inr result, az1) \<Rightarrow>
          if result \<and> truthy protected_rpcs then
            if identity \<in> set (peers_list s) then
              (case env (add_protected_rpcs_call identity (set_arg protected_rpcs)) of
                 None \<Rightarrow>
                   (Inr result,
                    s\<lparr>authz_manager := Some az1,
                      rpc_calls := rpc_calls s
                        @ [add_protected_rpcs_call identity (set_arg protected_rpcs)]\<rparr>)
               | Some e \<Rightarrow>
                   (if e = Unreachable then Inr result
                    else if e = RemoteError then Inl TypeError
                    else Inl e,
                    s\<lparr>authz_manager := Some az1,
                      rpc_calls := rpc_calls s
                        @ [add_protected_rpcs_call identity (set_arg protected_rpcs)]\<rparr>))
            else (Inr result, s\<lparr>authz_manager := Some az1\<rparr>)
          else (Inr result, s\<lparr>authz_manager := Some az1\<rparr>)))"

section \<open>The Policy Store, the Authorization Manager and the credentials store\<close>

text \<open>
  The implementations of \<^verbatim>\<open>AuthorizationManager\<close> and \<^verbatim>\<open>CredentialsStore\<close> that
  the package imports (\<^verbatim>\<open>volttron.auth.file_based_auth_manager\<close>,
  \<^verbatim>\<open>volttron.auth.file_based_credential_store\<close>) are not among the source files.
  The definitions of this section follow sections 3, 4.1, 4.2 and 6 of the
  specification. Python's regular-expression library is a parameter.
\<close>

text \<open>
  Python's \<^verbatim>\<open>re\<close>: whether an expression compiles, and whether a compiled
  expression matches a candidate in full.
\<close>

record regex_engine =
  compiles :: "string \<Rightarrow> bool"
  fullmatch :: "string \<Rightarrow> string \<Rightarrow> bool"

text \<open>
  Modelled from the spec: the Pattern Matcher (section 4.2). A pattern delimited by the
  marker character is a regular expression over the enclosed text, matched in full; any
  other pattern is matched by equality. The classification is that of \<open>isregex\<close>.
\<close>

definition pattern_body :: "string \<Rightarrow> string" where
  "pattern_body p = butlast (tl p)"

definition pattern_matches :: "regex_engine \<Rightarrow> string \<Rightarrow> string \<Rightarrow> bool" where
  "pattern_matches rx p candidate =
     (if isregex p then fullmatch rx (pattern_body p) candidate else p = candidate)"

text \<open>
  Modelled from the spec: malformed regular-expression content is rejected when a grant
  is created (\<open>InvalidPattern\<close>).
\<close>

definition valid_pattern :: "regex_engine \<Rightarrow> string \<Rightarrow> bool" where
  "valid_pattern rx p = (if isregex p then compiles rx (pattern_body p) else True)"

text \<open>
  Modelled from the spec: the patterns of the RPC capabilities given to a merge are
  well formed.
\<close>

fun valid_rpc_capabilities :: "regex_engine \<Rightarrow> RPCCapabilities option \<Rightarrow> bool" where
  "valid_rpc_capabilities rx None = True"
| "valid_rpc_capabilities rx (Some cs) = list_all (\<lambda>c. valid_pattern rx (resource c)) cs"

text \<open>
  Modelled from the spec: the patterns of the pubsub capabilities given to a merge are
  well formed.
\<close>

fun valid_pubsub_capabilities :: "regex_engine \<Rightarrow> PubsubCapabilities option \<Rightarrow> bool" where
  "valid_pubsub_capabilities rx None = True"
| "valid_pubsub_capabilities rx (Some cs) =
     list_all (\<lambda>c. valid_pattern rx (topic_pattern c)) cs"

text \<open>
  Modelled from the spec: a Role is a named bundle of RPC and pubsub capabilities
  (section 3).
\<close>

record role =
  role_rpc_capabilities :: "RPCCapability set"
  role_pubsub_capabilities :: "PubsubCapability set"

text \<open>
  Modelled from the spec: an AgentGroup has member identities, role assignments applied
  to all members, and direct capabilities (sections 3 and 4.1).
\<close>

record agent_group =
  identities :: "identity set"
  group_roles :: "AgentRole set"
  group_rpc_capabilities :: "RPCCapability set"
  group_pubsub_capabilities :: "PubsubCapability set"

text \<open>
  Modelled from the spec: an AgentAuthorization is the record of one identity: its
  protected RPC method names, role assignments, direct capabilities and comment.
\<close>

record agent_authz =
  protected_rpcs :: "vipid_dot_rpc_method set"
  agent_roles :: "AgentRole set"
  rpc_capabilities :: "RPCCapability set"
  pubsub_capabilities :: "PubsubCapability set"
  comments :: "string option"

text \<open>
  Modelled from the spec: the Policy Store owns the roles, groups and agent records,
  keyed by name or identity, and the bus-wide protected topics. The dictionaries keep
  insertion order.
\<close>

record policy_store =
  roles :: "(string \<times> role) list"
  agent_groups :: "(string \<times> agent_group) list"
  agents :: "(identity \<times> agent_authz) list"
  protected_topics :: "string set"

text \<open>Modelled from the spec: the Policy Store before any entity is created.\<close>

definition empty_policy_store :: policy_store where
  "empty_policy_store = \<lparr>roles = [], agent_groups = [], agents = [], protected_topics = {}\<rparr>"

text \<open>
  Modelled from the spec: entities are created lazily on the first merge, so a lookup
  of an absent name yields the empty entity.
\<close>

definition role_of :: "policy_store \<Rightarrow> string \<Rightarrow> role" where
  "role_of st name =
     (case map_of (roles st) name of
        None \<Rightarrow> \<lparr>role_rpc_capabilities = {}, role_pubsub_capabilities = {}\<rparr>
      | Some r \<Rightarrow> r)"

text \<open>Modelled from the spec: the group under a name, empty when absent.\<close>

definition group_of :: "policy_store \<Rightarrow> string \<Rightarrow> agent_group" where
  "group_of st name =
     (case map_of (agent_groups st) name of
        None \<Rightarrow> \<lparr>identities = {}, group_roles = {}, group_rpc_capabilities = {},
                 group_pubsub_capabilities = {}\<rparr>
      | Some g \<Rightarrow> g)"

text \<open>Modelled from the spec: the record of an identity, empty when absent.\<close>

definition authz_of :: "policy_store \<Rightarrow> identity \<Rightarrow> agent_authz" where
  "authz_of st ident =
     (case map_of (agents st) ident of
        None \<Rightarrow> \<lparr>protected_rpcs = {}, agent_roles = {}, rpc_capabilities = {},
                 pubsub_capabilities = {}, comments = None\<rparr>
      | Some a \<Rightarrow> a)"

text \<open>The members of an optional list argument.\<close>

fun list_arg :: "'a list option \<Rightarrow> 'a set" where
  "list_arg None = {}"
| "list_arg (Some xs) = set xs"

text \<open>
  Modelled from the spec: \<open>create_or_merge_role\<close> creates the role if absent and
  otherwise unions the given capability sets into it; it returns success once applied.
\<close>

definition ps_create_or_merge_role ::
  "regex_engine \<Rightarrow> string \<Rightarrow> RPCCapabilities option \<Rightarrow> PubsubCapabilities option
     \<Rightarrow> policy_store \<Rightarrow> (error + bool) \<times> policy_store" where
  "ps_create_or_merge_role rx name rpc pubsub st =
     (if valid_rpc_capabilities rx rpc \<and> valid_pubsub_capabilities rx pubsub then
        let old = role_of st name
        in (Inr True,
            st\<lparr>roles := AList.update name
                 \<lparr>role_rpc_capabilities = role_rpc_capabilities old \<union> list_arg rpc,
                  role_pubsub_capabilities = role_pubsub_capabilities old \<union> list_arg pubsub\<rparr>
                 (roles st)\<rparr>)
      else (Inl InvalidPattern, st))"

text \<open>
  Modelled from the spec: \<open>create_or_merge_agent_group\<close> unions membership and the
  attached role assignments and direct capabilities.
\<close>

definition ps_create_or_merge_agent_group ::
  "regex_engine \<Rightarrow> string \<Rightarrow> identity set \<Rightarrow> AgentRoles option \<Rightarrow> RPCCapabilities option
     \<Rightarrow> PubsubCapabilities option \<Rightarrow> policy_store \<Rightarrow> (error + bool) \<times> policy_store" where
  "ps_create_or_merge_agent_group rx name ids ars rpc pubsub st =
     (if valid_rpc_capabilities rx rpc \<and> valid_pubsub_capabilities rx pubsub then
        let old = group_of st name
        in (Inr True,
            st\<lparr>agent_groups := AList.update name
                 \<lparr>identities = identities old \<union> ids,
                  group_roles = group_roles old \<union> list_arg ars,
                  group_rpc_capabilities = group_rpc_capabilities old \<union> list_arg rpc,
                  group_pubsub_capabilities = group_pubsub_capabilities old \<union> list_arg pubsub\<rparr>
                 (agent_groups st)\<rparr>)
      else (Inl InvalidPattern, st))"

text \<open>
  Modelled from the spec: \<open>create_or_merge_agent_authz\<close> unions protected_rpcs, role
  assignments and direct capabilities, and overwrites the comment.
\<close>

definition ps_create_or_merge_agent_authz ::
  "regex_engine \<Rightarrow> identity \<Rightarrow> vipid_dot_rpc_method set option \<Rightarrow> AgentRoles option
     \<Rightarrow> RPCCapabilities option \<Rightarrow> PubsubCapabilities option \<Rightarrow> string option
     \<Rightarrow> policy_store \<Rightarrow> (error + bool) \<times> policy_store" where
  "ps_create_or_merge_agent_authz rx ident prot ars rpc pubsub cmt st =
     (if valid_rpc_capabilities rx rpc \<and> valid_pubsub_capabilities rx pubsub then
        let old = authz_of st ident
        in (Inr True,
            st\<lparr>agents := AList.update ident
                 \<lparr>protected_rpcs = protected_rpcs old \<union> set_arg prot,
                  agent_roles = agent_roles old \<union> list_arg ars,
                  rpc_capabilities = rpc_capabilities old \<union> list_arg rpc,
                  pubsub_capabilities = pubsub_capabilities old \<union> list_arg pubsub,
                  comments = cmt\<rparr>
                 (agents st)\<rparr>)
      else (Inl InvalidPattern, st))"

text \<open>
  Modelled from the spec: \<open>get_protected_rpcs\<close> is the empty set for an identity
  without a record.
\<close>

definition ps_get_protected_rpcs :: "policy_store \<Rightarrow> identity \<Rightarrow> vipid_dot_rpc_method set" where
  "ps_get_protected_rpcs st ident = protected_rpcs (authz_of st ident)"

text \<open>
  Modelled from the spec: the capabilities of an assigned role, with the
  assignment-local param_restrictions merged into each RPC capability; a role name
  without a role contributes nothing.
\<close>

definition apply_role :: "policy_store \<Rightarrow> AgentRole \<Rightarrow> capability set" where
  "apply_role st ar =
     (\<lambda>c. RPC (RPCCapability (resource c)
                 (AList.merge (rpc_param_restrictions c) (param_restrictions ar))))
       ` role_rpc_capabilities (role_of st (role_name ar))
     \<union> PubSub ` role_pubsub_capabilities (role_of st (role_name ar))"

text \<open>
  Modelled from the spec: the effective capabilities of an identity are its direct
  capabilities, those of each assigned role, and those inherited through group
  membership; they are recomputed on every call.
\<close>

definition ps_get_agent_capabilities :: "policy_store \<Rightarrow> identity \<Rightarrow> capability set" where
  "ps_get_agent_capabilities st ident =
     (RPC ` rpc_capabilities (authz_of st ident)
      \<union> PubSub ` pubsub_capabilities (authz_of st ident)
      \<union> (\<Union>ar \<in> agent_roles (authz_of st ident). apply_role st ar))
     \<union> (\<Union>g \<in> snd ` set (agent_groups st).
          if ident \<in> identities g
          then RPC ` group_rpc_capabilities g \<union> PubSub ` group_pubsub_capabilities g
               \<union> (\<Union>ar \<in> group_roles g. apply_role st ar)
          else {})"

text \<open>
  Modelled from the spec: \<open>check_rpc_authorization\<close>. If the method is not in the
  protected set (or that set is empty) the answer is true at once; otherwise some
  effective RPC capability must match the method name and have every restricted
  parameter present in the arguments with an equal value. The protected set consulted is
  the one recorded under the identity of the call, as in the testable properties of
  section 8. The resolver of effective capabilities is an argument, so that what the
  answer depends on is visible.
\<close>

definition capability_permits ::
  "regex_engine \<Rightarrow> vipid_dot_rpc_method \<Rightarrow> (string \<rightharpoonup> string) \<Rightarrow> capability \<Rightarrow> bool" where
  "capability_permits rx method_name method_args cap =
     (case cap of
        RPC c \<Rightarrow>
          pattern_matches rx (resource c) method_name
          \<and> list_all (\<lambda>(k, v). method_args k = Some v) (rpc_param_restrictions c)
      | PubSub c \<Rightarrow> False)"

text \<open>
  Modelled from the spec: the decision of \<open>check_rpc_authorization\<close>, with the
  default-open test first.
\<close>

definition check_rpc_authorization_with ::
  "(policy_store \<Rightarrow> identity \<Rightarrow> capability set) \<Rightarrow> regex_engine \<Rightarrow> policy_store
     \<Rightarrow> identity \<Rightarrow> vipid_dot_rpc_method \<Rightarrow> (string \<rightharpoonup> string) \<Rightarrow> bool" where
  "check_rpc_authorization_with resolve rx st ident method_name method_args =
     (if method_name \<notin> ps_get_protected_rpcs st ident then True
      else (\<exists>cap \<in> resolve st ident. capability_permits rx method_name method_args cap))"

text \<open>
  Modelled from the spec: \<open>check_rpc_authorization\<close> resolves with
  \<open>get_agent_capabilities\<close>.
\<close>

definition ps_check_rpc_authorization ::
  "regex_engine \<Rightarrow> policy_store \<Rightarrow> identity \<Rightarrow> vipid_dot_rpc_method
     \<Rightarrow> (string \<rightharpoonup> string) \<Rightarrow> bool" where
  "ps_check_rpc_authorization = check_rpc_authorization_with ps_get_agent_capabilities"

text \<open>
  Modelled from the spec: \<open>remove_agent_authorization\<close> deletes the record; an unknown
  identity is \<open>NotFound\<close> (section 7).
\<close>

definition ps_remove_agent_authorization ::
  "identity \<Rightarrow> policy_store \<Rightarrow> (error + bool) \<times> policy_store" where
  "ps_remove_agent_authorization ident st =
     (case map_of (agents st) ident of
        None \<Rightarrow> (Inl NotFound, st)
      | Some a \<Rightarrow> (Inr True, st\<lparr>agents := AList.delete ident (agents st)\<rparr>))"

text \<open>
  Modelled from the spec: the Authorization Manager over the Policy Store, as the
  interface the service calls.
\<close>

definition policy_manager :: "regex_engine \<Rightarrow> policy_store authorization_manager" where
  "policy_manager rx =
     \<lparr>m_create_or_merge_role = ps_create_or_merge_role rx,
      m_create_or_merge_agent_group = ps_create_or_merge_agent_group rx,
      m_create_or_merge_agent_authz = ps_create_or_merge_agent_authz rx,
      m_get_agent_capabilities = (\<lambda>ident st. (Inr (ps_get_agent_capabilities st ident), st)),
      m_get_protected_rpcs = (\<lambda>ident st. (Inr (ps_get_protected_rpcs st ident), st)),
      m_check_rpc_authorization =
        (\<lambda>ident method_name method_args st.
           (Inr (ps_check_rpc_authorization rx st ident method_name method_args), st)),
      m_remove_agent_authorization = ps_remove_agent_authorization\<rparr>"

text \<open>Modelled from the spec: credentials name an identity and carry its secret.\<close>

datatype credentials = Credentials (cred_identity: identity) (secret: nat)

text \<open>
  Modelled from the spec: the state of the credential store and creator: the stored
  credentials and the number of secrets issued so far.
\<close>

record credential_state =
  stored :: "(identity \<times> credentials) list"
  issued :: nat

text \<open>
  Modelled from the spec: the credential store and creator of section 6.
  \<open>retrieve\<close> fails with \<open>IdentityNotFound\<close> when the identity is absent, and so
  does \<open>remove\<close>; \<open>store\<close> files the credentials under their identity; \<open>create\<close>
  issues a secret that was never issued before.
\<close>

definition stored_credentials :: "(credential_state, credentials) credentials_api" where
  "stored_credentials =
     \<lparr>retrieve_credentials =
        (\<lambda>k cs. case map_of (stored cs) k of
                  None \<Rightarrow> (Inl IdentityNotFound, cs)
                | Some c \<Rightarrow> (Inr c, cs)),
      store_credentials =
        (\<lambda>c cs. (Inr (), cs\<lparr>stored := AList.update (cred_identity c) c (stored cs)\<rparr>)),
      remove_credentials =
        (\<lambda>k cs. case map_of (stored cs) k of
                  None \<Rightarrow> (Inl IdentityNotFound, cs)
                | Some c \<Rightarrow> (Inr (), cs\<lparr>stored := AList.delete k (stored cs)\<rparr>)),
      creator_create =
        (\<lambda>k cs. (Inr (Credentials k (issued cs)), cs\<lparr>issued := Suc (issued cs)\<rparr>))\<rparr>"

section \<open>A concrete deployment\<close>

text \<open>
  A deployment on which the theorems below are instantiated: the reserved identities
  under the names the platform gives them, a regular-expression engine that knows the
  single expression \<open>.*\<close>, a service before its first start, and a running service
  with one connected agent whose method \<open>m\<close> is protected.
\<close>

definition platform_identities :: known_identities where
  "platform_identities =
     \<lparr>CONFIGURATION_STORE = ''config.store'', AUTH = ''platform.auth'',
      CONTROL_CONNECTION = ''control.connection'', CONTROL = ''control'',
      PLATFORM = ''platform'', PLATFORM_HEALTH = ''platform.health''\<rparr>"

definition toy_regex :: regex_engine where
  "toy_regex = \<lparr>compiles = (\<lambda>p. p = ''.*''), fullmatch = (\<lambda>p c. p = ''.*'')\<rparr>"

definition fresh_service :: "(credential_state, policy_store) auth_service" where
  "fresh_service =
     \<lparr>credentials_store = \<lparr>stored = [], issued = 0\<rparr>,
      authz_manager = Some empty_policy_store, peers_list = [], rpc_calls = []\<rparr>"

definition running_policy :: policy_store where
  "running_policy =
     \<lparr>roles = [], agent_groups = [],
      agents = [(''agent1'',
                 \<lparr>protected_rpcs = {''m''}, agent_roles = {}, rpc_capabilities = {},
                  pubsub_capabilities = {}, comments = None\<rparr>)],
      protected_topics = {}\<rparr>"

definition running_service :: "(credential_state, policy_store) auth_service" where
  "running_service =
     \<lparr>credentials_store = \<lparr>stored = [(''agent1'', Credentials ''agent1'' 0)], issued = 1\<rparr>,
      authz_manager = Some running_policy, peers_list = [''agent1''], rpc_calls = []\<rparr>"

section \<open>Auxiliary lemmas\<close>

subsection \<open>Patterns and the Policy Store\<close>

lemma isregex_last: "isregex s \<Longrightarrow> last s = CHR ''/''"
  by (cases "s = []") (auto simp: isregex_def last_conv_nth split: if_splits)

lemma not_isregex_append: "ys \<noteq> [] \<Longrightarrow> last ys \<noteq> CHR ''/'' \<Longrightarrow> \<not> isregex (xs @ ys)"
  using isregex_last [of "xs @ ys"] by auto

lemma isregex_all: "isregex ''/.*/''"
  by (simp add: isregex_def)

lemma pattern_body_all: "pattern_body ''/.*/'' = ''.*''"
  by (simp add: pattern_body_def)

lemma policy_manager_simps:
  "m_create_or_merge_role (policy_manager rx) = ps_create_or_merge_role rx"
  "m_create_or_merge_agent_group (policy_manager rx) = ps_create_or_merge_agent_group rx"
  "m_create_or_merge_agent_authz (policy_manager rx) = ps_create_or_merge_agent_authz rx"
  "m_get_agent_capabilities (policy_manager rx) ident st = (Inr (ps_get_agent_capabilities st ident), st)"
  "m_get_protected_rpcs (policy_manager rx) ident st = (Inr (ps_get_protected_rpcs st ident), st)"
  "m_check_rpc_authorization (policy_manager rx) ident m a st = (Inr (ps_check_rpc_authorization rx st ident m a), st)"
  "m_remove_agent_authorization (policy_manager rx) = ps_remove_agent_authorization"
  by (simp_all add: policy_manager_def)

lemma authz_of_update:
  "authz_of (st\<lparr>agents := AList.update k v (agents st)\<rparr>) x = (if x = k then v else authz_of st x)"
  by (simp add: authz_of_def update_conv')

lemma merge_authz_plain:
  "ps_create_or_merge_agent_authz rx k p ars None None c st =
     (Inr True,
      st\<lparr>agents := AList.update k
           \<lparr>protected_rpcs = protected_rpcs (authz_of st k) \<union> set_arg p,
            agent_roles = agent_roles (authz_of st k) \<union> list_arg ars,
            rpc_capabilities = rpc_capabilities (authz_of st k),
            pubsub_capabilities = pubsub_capabilities (authz_of st k),
            comments = c\<rparr> (agents st)\<rparr>)"
  by (simp add: ps_create_or_merge_agent_authz_def Let_def)

lemma seed_agent_authz_policy:
  "\<exists>st'. seed_agent_authz (policy_manager rx) K ks st = (Inr (), st')
     \<and> roles st' = roles st \<and> agent_groups st' = agent_groups st
     \<and> protected_topics st' = protected_topics st
     \<and> (\<forall>x. ps_get_protected_rpcs st' x =
            ps_get_protected_rpcs st x
            \<union> (if x \<in> set ks \<and> x = CONFIGURATION_STORE K then config_store_protected_rpcs else {})
            \<union> (if x \<in> set ks \<and> x = AUTH K then auth_protected_rpcs else {}))"
proof (induction ks arbitrary: st)
  case Nil
  show ?case by simp
next
  case (Cons k ks)
  define st1 where "st1 = (if k = CONFIGURATION_STORE K
      then snd (ps_create_or_merge_agent_authz rx k (Some config_store_protected_rpcs) None None None (Some init_comment) st)
      else st)"
  define st2 where "st2 = (if k = AUTH K
      then snd (ps_create_or_merge_agent_authz rx k (Some auth_protected_rpcs) None None None (Some init_comment) st1)
      else snd (ps_create_or_merge_agent_authz rx k None None None None (Some init_comment) st1))"
  have step: "seed_agent_authz (policy_manager rx) K (k # ks) st = seed_agent_authz (policy_manager rx) K ks st2"
    by (simp add: st1_def st2_def policy_manager_simps merge_authz_plain)
  have p1: "ps_get_protected_rpcs st1 x = ps_get_protected_rpcs st x
      \<union> (if x = k \<and> x = CONFIGURATION_STORE K then config_store_protected_rpcs else {})" for x
    by (auto simp: st1_def merge_authz_plain ps_get_protected_rpcs_def authz_of_update)
  have p2: "ps_get_protected_rpcs st2 x = ps_get_protected_rpcs st1 x
      \<union> (if x = k \<and> x = AUTH K then auth_protected_rpcs else {})" for x
    by (auto simp: st2_def merge_authz_plain ps_get_protected_rpcs_def authz_of_update)
  have keep: "roles st2 = roles st" "agent_groups st2 = agent_groups st"
      "protected_topics st2 = protected_topics st"
    by (simp_all add: st1_def st2_def merge_authz_plain)
  from Cons.IH [of st2] obtain st' where
    s: "seed_agent_authz (policy_manager rx) K ks st2 = (Inr (), st')"
    and r: "roles st' = roles st2" "agent_groups st' = agent_groups st2"
      "protected_topics st' = protected_topics st2"
    and p: "\<And>x. ps_get_protected_rpcs st' x =
            ps_get_protected_rpcs st2 x
            \<union> (if x \<in> set ks \<and> x = CONFIGURATION_STORE K then config_store_protected_rpcs else {})
            \<union> (if x \<in> set ks \<and> x = AUTH K then auth_protected_rpcs else {})"
    by blast
  have "\<forall>x. ps_get_protected_rpcs st' x =
            ps_get_protected_rpcs st x
            \<union> (if x \<in> set (k # ks) \<and> x = CONFIGURATION_STORE K then config_store_protected_rpcs else {})
            \<union> (if x \<in> set (k # ks) \<and> x = AUTH K then auth_protected_rpcs else {})"
    unfolding p p2 p1 by auto
  with step s r keep show ?case by simp
qed


lemma role_of_update:
  "role_of (st\<lparr>roles := AList.update k v (roles st)\<rparr>) x = (if x = k then v else role_of st x)"
  by (simp add: role_of_def update_conv')

lemma group_of_update:
  "group_of (st\<lparr>agent_groups := AList.update k v (agent_groups st)\<rparr>) x =
     (if x = k then v else group_of st x)"
  by (simp add: group_of_def update_conv')

lemma valid_default_rpc_capabilities_role:
  "valid_rpc_capabilities rx (Some (default_rpc_capabilities_role K))"
  by (simp add: default_rpc_capabilities_role_def valid_pattern_def not_isregex_append)

lemma valid_sync_agent_config_role:
  "valid_rpc_capabilities rx (Some sync_agent_config_role)"
proof -
  have "\<not> isregex ''config.store.config_update''" "\<not> isregex ''config.store.initial_update''"
    using isregex_last [of "''config.store.config_update''"]
      isregex_last [of "''config.store.initial_update''"] by auto
  then show ?thesis by (simp add: sync_agent_config_role_def valid_pattern_def)
qed

lemma valid_pattern_all: "valid_pattern rx ''/.*/'' = compiles rx ''.*''"
  by (simp add: valid_pattern_def isregex_all pattern_body_all)

lemma valid_admin_role:
  "valid_rpc_capabilities rx (Some [RPCCapability ''/.*/'' []]) = compiles rx ''.*''"
  "valid_pubsub_capabilities rx (Some [PubsubCapability ''/.*/'' ''pubsub'']) = compiles rx ''.*''"
  by (simp_all add: valid_pattern_def isregex_all pattern_body_all)

lemma merge_role_valid:
  "valid_rpc_capabilities rx rpc \<Longrightarrow> valid_pubsub_capabilities rx pubsub \<Longrightarrow>
   ps_create_or_merge_role rx name rpc pubsub st =
     (Inr True,
      st\<lparr>roles := AList.update name
           \<lparr>role_rpc_capabilities = role_rpc_capabilities (role_of st name) \<union> list_arg rpc,
            role_pubsub_capabilities = role_pubsub_capabilities (role_of st name) \<union> list_arg pubsub\<rparr>
           (roles st)\<rparr>)"
  by (simp add: ps_create_or_merge_role_def Let_def)

lemma merge_group_plain:
  "ps_create_or_merge_agent_group rx name ids ars None None st =
     (Inr True,
      st\<lparr>agent_groups := AList.update name
           \<lparr>identities = identities (group_of st name) \<union> ids,
            group_roles = group_roles (group_of st name) \<union> list_arg ars,
            group_rpc_capabilities = group_rpc_capabilities (group_of st name),
            group_pubsub_capabilities = group_pubsub_capabilities (group_of st name)\<rparr>
           (agent_groups st)\<rparr>)"
  by (simp add: ps_create_or_merge_agent_group_def Let_def)

lemma seed_default_policy_fails:
  assumes "\<not> compiles rx ''.*''"
  shows "fst (seed_default_policy (policy_manager rx) K st) = Inl InvalidPattern"
proof -
  obtain st1 where m1: "ps_create_or_merge_role rx ''default_rpc_capabilities''
      (Some (default_rpc_capabilities_role K)) None st = (Inr True, st1)"
    using merge_role_valid [OF valid_default_rpc_capabilities_role, of rx None] by simp
  obtain st2 where m2: "ps_create_or_merge_role rx ''sync_agent_config''
      (Some sync_agent_config_role) None st1 = (Inr True, st2)"
    using merge_role_valid [OF valid_sync_agent_config_role, of rx None] by simp
  have m3: "ps_create_or_merge_role rx ''admin''
      (Some [RPCCapability ''/.*/'' []]) (Some [PubsubCapability ''/.*/'' ''pubsub'']) st2
      = (Inl InvalidPattern, st2)"
    using assms valid_admin_role(1) [of rx]
    by (simp only: ps_create_or_merge_role_def simp_thms if_False)
  show ?thesis
    by (simp add: seed_default_policy_def policy_manager_simps m1 m2 m3)
qed

lemma seed_default_policy_policy:
  assumes ok: "compiles rx ''.*''"
  shows "\<exists>st'. seed_default_policy (policy_manager rx) K st = (Inr (), st')
     \<and> (\<forall>x. ps_get_protected_rpcs st' x =
            ps_get_protected_rpcs st x
            \<union> (if x = CONFIGURATION_STORE K then config_store_protected_rpcs else {})
            \<union> (if x = AUTH K then auth_protected_rpcs else {}))
     \<and> role_of st' ''default_rpc_capabilities'' =
         \<lparr>role_rpc_capabilities =
            role_rpc_capabilities (role_of st ''default_rpc_capabilities'')
            \<union> set (default_rpc_capabilities_role K),
          role_pubsub_capabilities =
            role_pubsub_capabilities (role_of st ''default_rpc_capabilities'')\<rparr>
     \<and> role_of st' ''sync_agent_config'' =
         \<lparr>role_rpc_capabilities =
            role_rpc_capabilities (role_of st ''sync_agent_config'') \<union> set sync_agent_config_role,
          role_pubsub_capabilities = role_pubsub_capabilities (role_of st ''sync_agent_config'')\<rparr>
     \<and> role_of st' ''admin'' =
         \<lparr>role_rpc_capabilities =
            role_rpc_capabilities (role_of st ''admin'') \<union> {RPCCapability ''/.*/'' []},
          role_pubsub_capabilities =
            role_pubsub_capabilities (role_of st ''admin'')
            \<union> {PubsubCapability ''/.*/'' ''pubsub''}\<rparr>
     \<and> fst ` set (roles st') =
         fst ` set (roles st) \<union> {''default_rpc_capabilities'', ''sync_agent_config'', ''admin''}
     \<and> group_of st' ''admin_users'' =
         \<lparr>identities = identities (group_of st ''admin_users'') \<union> set (volttron_services K),
          group_roles = group_roles (group_of st ''admin_users'') \<union> {AgentRole ''admin'' []},
          group_rpc_capabilities = group_rpc_capabilities (group_of st ''admin_users''),
          group_pubsub_capabilities = group_pubsub_capabilities (group_of st ''admin_users'')\<rparr>
     \<and> fst ` set (agent_groups st') = fst ` set (agent_groups st) \<union> {''admin_users''}"
proof -
  define st1 where "st1 = snd (ps_create_or_merge_role rx ''default_rpc_capabilities''
      (Some (default_rpc_capabilities_role K)) None st)"
  define st2 where "st2 = snd (ps_create_or_merge_role rx ''sync_agent_config''
      (Some sync_agent_config_role) None st1)"
  define st3 where "st3 = snd (ps_create_or_merge_role rx ''admin''
      (Some [RPCCapability ''/.*/'' []]) (Some [PubsubCapability ''/.*/'' ''pubsub'']) st2)"
  have m1: "ps_create_or_merge_role rx ''default_rpc_capabilities''
      (Some (default_rpc_capabilities_role K)) None st = (Inr True, st1)"
    using merge_role_valid [OF valid_default_rpc_capabilities_role, of rx None] by (simp add: st1_def)
  have m2: "ps_create_or_merge_role rx ''sync_agent_config''
      (Some sync_agent_config_role) None st1 = (Inr True, st2)"
    using merge_role_valid [OF valid_sync_agent_config_role, of rx None] by (simp add: st2_def)
  have m3: "ps_create_or_merge_role rx ''admin''
      (Some [RPCCapability ''/.*/'' []]) (Some [PubsubCapability ''/.*/'' ''pubsub'']) st2
      = (Inr True, st3)"
    using ok merge_role_valid [of rx "Some [RPCCapability ''/.*/'' []]"
        "Some [PubsubCapability ''/.*/'' ''pubsub'']" "''admin''" st2]
    by (simp add: st3_def valid_pattern_all)
  have e1: "st1 = st\<lparr>roles := AList.update ''default_rpc_capabilities''
           \<lparr>role_rpc_capabilities = role_rpc_capabilities (role_of st ''default_rpc_capabilities'')
              \<union> set (default_rpc_capabilities_role K),
            role_pubsub_capabilities = role_pubsub_capabilities (role_of st ''default_rpc_capabilities'')\<rparr>
           (roles st)\<rparr>"
    using merge_role_valid [OF valid_default_rpc_capabilities_role, of rx None] by (simp add: st1_def)
  have e2: "st2 = st1\<lparr>roles := AList.update ''sync_agent_config''
           \<lparr>role_rpc_capabilities = role_rpc_capabilities (role_of st1 ''sync_agent_config'')
              \<union> set sync_agent_config_role,
            role_pubsub_capabilities = role_pubsub_capabilities (role_of st1 ''sync_agent_config'')\<rparr>
           (roles st1)\<rparr>"
    using merge_role_valid [OF valid_sync_agent_config_role, of rx None] by (simp add: st2_def)
  have e3: "st3 = st2\<lparr>roles := AList.update ''admin''
           \<lparr>role_rpc_capabilities = role_rpc_capabilities (role_of st2 ''admin'')
              \<union> {RPCCapability ''/.*/'' []},
            role_pubsub_capabilities = role_pubsub_capabilities (role_of st2 ''admin'')
              \<union> {PubsubCapability ''/.*/'' ''pubsub''}\<rparr>
           (roles st2)\<rparr>"
    using ok merge_role_valid [of rx "Some [RPCCapability ''/.*/'' []]"
        "Some [PubsubCapability ''/.*/'' ''pubsub'']" "''admin''" st2]
    by (simp add: st3_def valid_pattern_all)
  have r1: "role_of st1 x = (if x = ''default_rpc_capabilities'' then
           \<lparr>role_rpc_capabilities = role_rpc_capabilities (role_of st ''default_rpc_capabilities'')
              \<union> set (default_rpc_capabilities_role K),
            role_pubsub_capabilities = role_pubsub_capabilities (role_of st ''default_rpc_capabilities'')\<rparr>
           else role_of st x)" for x
    by (subst e1) (simp only: role_of_update)
  have r2: "role_of st2 x = (if x = ''sync_agent_config'' then
           \<lparr>role_rpc_capabilities = role_rpc_capabilities (role_of st1 ''sync_agent_config'')
              \<union> set sync_agent_config_role,
            role_pubsub_capabilities = role_pubsub_capabilities (role_of st1 ''sync_agent_config'')\<rparr>
           else role_of st1 x)" for x
    by (subst e2) (simp only: role_of_update)
  have r3: "role_of st3 x = (if x = ''admin'' then
           \<lparr>role_rpc_capabilities = role_rpc_capabilities (role_of st2 ''admin'')
              \<union> {RPCCapability ''/.*/'' []},
            role_pubsub_capabilities = role_pubsub_capabilities (role_of st2 ''admin'')
              \<union> {PubsubCapability ''/.*/'' ''pubsub''}\<rparr>
           else role_of st2 x)" for x
    by (subst e3) (simp only: role_of_update)
  have d1: "fst ` set (roles st1) = insert ''default_rpc_capabilities'' (fst ` set (roles st))"
    by (subst e1) (simp add: dom_update)
  have d2: "fst ` set (roles st2) = insert ''sync_agent_config'' (fst ` set (roles st1))"
    by (subst e2) (simp add: dom_update)
  have d3: "fst ` set (roles st3) = insert ''admin'' (fst ` set (roles st2))"
    by (subst e3) (simp add: dom_update)
  have a1: "agents st1 = agents st" "agent_groups st1 = agent_groups st"
    by (subst e1, simp)+
  have a2: "agents st2 = agents st1" "agent_groups st2 = agent_groups st1"
    by (subst e2, simp)+
  have a3: "agents st3 = agents st2" "agent_groups st3 = agent_groups st2"
    by (subst e3, simp)+
  from seed_agent_authz_policy [of rx K "volttron_services K" st3] obtain st4 where
    s4: "seed_agent_authz (policy_manager rx) K (volttron_services K) st3 = (Inr (), st4)"
    and k4: "roles st4 = roles st3" "agent_groups st4 = agent_groups st3"
    and p4: "\<And>x. ps_get_protected_rpcs st4 x =
            ps_get_protected_rpcs st3 x
            \<union> (if x \<in> set (volttron_services K) \<and> x = CONFIGURATION_STORE K
                then config_store_protected_rpcs else {})
            \<union> (if x \<in> set (volttron_services K) \<and> x = AUTH K then auth_protected_rpcs else {})"
    by blast
  define st5 where "st5 = snd (ps_create_or_merge_agent_group rx ''admin_users''
      (set (volttron_services K)) (Some [AgentRole ''admin'' []]) None None st4)"
  have m5: "ps_create_or_merge_agent_group rx ''admin_users''
      (set (volttron_services K)) (Some [AgentRole ''admin'' []]) None None st4 = (Inr True, st5)"
    unfolding st5_def by (simp add: merge_group_plain)
  have e5: "st5 = st4\<lparr>agent_groups := AList.update ''admin_users''
           \<lparr>identities = identities (group_of st4 ''admin_users'') \<union> set (volttron_services K),
            group_roles = group_roles (group_of st4 ''admin_users'') \<union> {AgentRole ''admin'' []},
            group_rpc_capabilities = group_rpc_capabilities (group_of st4 ''admin_users''),
            group_pubsub_capabilities = group_pubsub_capabilities (group_of st4 ''admin_users'')\<rparr>
           (agent_groups st4)\<rparr>"
    unfolding st5_def by (simp add: merge_group_plain)
  have run: "seed_default_policy (policy_manager rx) K st = (Inr (), st5)"
    by (simp add: seed_default_policy_def policy_manager_simps m1 m2 m3 s4 m5)
  have g4: "group_of st4 x = group_of st x" for x
    by (simp add: group_of_def k4 a3 a2 a1)
  have ro5: "role_of st5 x = role_of st3 x" for x
    by (subst e5) (simp add: role_of_def k4)
  have pr3: "ps_get_protected_rpcs st3 x = ps_get_protected_rpcs st x" for x
    by (simp add: ps_get_protected_rpcs_def authz_of_def a3 a2 a1)
  have pr5: "ps_get_protected_rpcs st5 x = ps_get_protected_rpcs st4 x" for x
    by (subst e5) (simp add: ps_get_protected_rpcs_def authz_of_def)
  have c1: "\<forall>x. ps_get_protected_rpcs st5 x =
            ps_get_protected_rpcs st x
            \<union> (if x = CONFIGURATION_STORE K then config_store_protected_rpcs else {})
            \<union> (if x = AUTH K then auth_protected_rpcs else {})"
    by (auto simp: pr5 p4 pr3 volttron_services_def)
  have c2: "role_of st5 ''default_rpc_capabilities'' =
         \<lparr>role_rpc_capabilities =
            role_rpc_capabilities (role_of st ''default_rpc_capabilities'')
            \<union> set (default_rpc_capabilities_role K),
          role_pubsub_capabilities =
            role_pubsub_capabilities (role_of st ''default_rpc_capabilities'')\<rparr>"
    by (simp add: ro5 r3 r2 r1)
  have c3: "role_of st5 ''sync_agent_config'' =
         \<lparr>role_rpc_capabilities =
            role_rpc_capabilities (role_of st ''sync_agent_config'') \<union> set sync_agent_config_role,
          role_pubsub_capabilities = role_pubsub_capabilities (role_of st ''sync_agent_config'')\<rparr>"
    by (simp add: ro5 r3 r2 r1)
  have c4: "role_of st5 ''admin'' =
         \<lparr>role_rpc_capabilities =
            role_rpc_capabilities (role_of st ''admin'') \<union> {RPCCapability ''/.*/'' []},
          role_pubsub_capabilities =
            role_pubsub_capabilities (role_of st ''admin'')
            \<union> {PubsubCapability ''/.*/'' ''pubsub''}\<rparr>"
    by (simp add: ro5 r3 r2 r1)
  have c5: "fst ` set (roles st5) =
         fst ` set (roles st) \<union> {''default_rpc_capabilities'', ''sync_agent_config'', ''admin''}"
    by (subst e5) (simp add: k4 d3 d2 d1 insert_commute)
  have c6: "group_of st5 ''admin_users'' =
         \<lparr>identities = identities (group_of st ''admin_users'') \<union> set (volttron_services K),
          group_roles = group_roles (group_of st ''admin_users'') \<union> {AgentRole ''admin'' []},
          group_rpc_capabilities = group_rpc_capabilities (group_of st ''admin_users''),
          group_pubsub_capabilities = group_pubsub_capabilities (group_of st ''admin_users'')\<rparr>"
    by (subst e5) (simp only: group_of_update g4 refl if_True)
  have c7: "fst ` set (agent_groups st5) = fst ` set (agent_groups st) \<union> {''admin_users''}"
    by (subst e5) (simp add: dom_update k4 a3 a2 a1)
  from run c1 c2 c3 c4 c5 c6 c7 show ?thesis by blast
qed

lemma seed_success_compiles:
  "seed_default_policy (policy_manager rx) K st = (Inr u, st') \<Longrightarrow> compiles rx ''.*''"
  using seed_default_policy_fails [of rx K st] by (cases "compiles rx ''.*''") auto

lemma init_policy_success:
  assumes "authz_manager s = Some st"
    and "fst (init C (policy_manager rx) K s) = Inr creds"
  shows "\<exists>st'. seed_default_policy (policy_manager rx) K st = (Inr (), st')
           \<and> authz_manager (snd (init C (policy_manager rx) K s)) = Some st'"
  using assms
  by (auto simp: init_def split: prod.splits sum.splits)

subsection \<open>The credentials store\<close>

lemma ensure_stored:
  "fst (ensure_credentials stored_credentials ks cs) = Inr ()
   \<and> (\<forall>k. map_of (stored cs) k \<noteq> None \<longrightarrow>
          map_of (stored (snd (ensure_credentials stored_credentials ks cs))) k \<noteq> None)
   \<and> (\<forall>k \<in> set ks.
          map_of (stored (snd (ensure_credentials stored_credentials ks cs))) k \<noteq> None)"
proof (induction ks arbitrary: cs)
  case Nil
  show ?case by simp
next
  case (Cons k ks)
  show ?case
  proof (cases "map_of (stored cs) k")
    case None
    define cs' where "cs' = cs\<lparr>issued := Suc (issued cs),
      stored := AList.update k (Credentials k (issued cs)) (stored cs)\<rparr>"
    have step: "ensure_credentials stored_credentials (k # ks) cs
        = ensure_credentials stored_credentials ks cs'"
      using None by (simp add: stored_credentials_def cs'_def)
    have "map_of (stored cs') k \<noteq> None" by (simp add: cs'_def update_conv')
    moreover have "map_of (stored cs) x \<noteq> None \<Longrightarrow> map_of (stored cs') x \<noteq> None" for x
      by (simp add: cs'_def update_conv')
    ultimately show ?thesis using Cons.IH [of cs'] unfolding step by auto
  next
    case (Some c)
    have step: "ensure_credentials stored_credentials (k # ks) cs
        = ensure_credentials stored_credentials ks cs"
      using Some by (simp add: stored_credentials_def)
    show ?thesis using Cons.IH [of cs] Some unfolding step by auto
  qed
qed

lemma init_concrete_ok:
  assumes "authz_manager s = Some st" "compiles rx ''.*''"
  shows "\<exists>c. fst (init stored_credentials (policy_manager rx) K s) = Inr c"
proof -
  obtain cs1 where e: "ensure_credentials stored_credentials (volttron_services K)
      (credentials_store s) = (Inr (), cs1)"
    using ensure_stored [of "volttron_services K" "credentials_store s"]
    by (metis prod.collapse)
  have "AUTH K \<in> set (volttron_services K)" by (simp add: volttron_services_def)
  with ensure_stored [of "volttron_services K" "credentials_store s"] e
  obtain c where c: "map_of (stored cs1) (AUTH K) = Some c" by fastforce
  from seed_default_policy_policy [OF assms(2), of K st] obtain st' where
    sd: "seed_default_policy (policy_manager rx) K st = (Inr (), st')"
    by (elim exE conjE) (rule that)
  have "fst (init stored_credentials (policy_manager rx) K s) = Inr c"
    using assms(1) by (simp add: init_def e sd) (simp add: stored_credentials_def c)
  then show ?thesis ..
qed



subsection \<open>Provisioning an agent on the Policy Store\<close>

lemma create_agent_concrete:
  assumes "authz_manager s = Some st"
  shows "create_agent stored_credentials (policy_manager rx) ident s =
     (Inr True,
      s\<lparr>credentials_store :=
          snd (ensure_credentials stored_credentials [ident] (credentials_store s)),
        authz_manager :=
          Some (if ps_get_agent_capabilities st ident = {}
                then snd (ps_create_or_merge_agent_authz rx ident (Some default_protected_rpcs)
                       (Some [AgentRole ''default_rpc_capabilities'' [(''identity'', ident)]])
                       None None (Some ''default authorization for new user'') st)
                else st)\<rparr>)"
  using assms
  by (cases "map_of (stored (credentials_store s)) ident")
     (simp_all add: create_agent_def stored_credentials_def policy_manager_simps
        merge_authz_plain)




subsection \<open>The concrete deployment\<close>

lemma toy_compiles: "compiles toy_regex ''.*''"
  by (simp add: toy_regex_def)

lemma fresh_manager: "authz_manager fresh_service = Some empty_policy_store"
  by (simp add: fresh_service_def)

lemma running_manager: "authz_manager running_service = Some running_policy"
  by (simp add: running_service_def)

lemma empty_policy_lookups:
  "role_of empty_policy_store n =
     \<lparr>role_rpc_capabilities = {}, role_pubsub_capabilities = {}\<rparr>"
  "group_of empty_policy_store n =
     \<lparr>identities = {}, group_roles = {}, group_rpc_capabilities = {},
      group_pubsub_capabilities = {}\<rparr>"
  "ps_get_protected_rpcs empty_policy_store x = {}"
  "roles empty_policy_store = []"
  "agent_groups empty_policy_store = []"
  by (simp_all add: role_of_def group_of_def ps_get_protected_rpcs_def authz_of_def
      empty_policy_store_def)

lemma running_policy_lookups:
  "authz_of running_policy ''agent1'' =
     \<lparr>protected_rpcs = {''m''}, agent_roles = {}, rpc_capabilities = {},
      pubsub_capabilities = {}, comments = None\<rparr>"
  "map_of (agents running_policy) ''agent2'' = None"
  "ps_get_agent_capabilities running_policy ''agent2'' = {}"
  by (simp_all add: authz_of_def running_policy_def ps_get_agent_capabilities_def)

section \<open>Properties\<close>

text \<open>
  Claim C1. For an identity without a protected_rpcs entry, or whose protected set is
  empty, \<open>check_rpc_authorization\<close> answers true for every method name and every
  argument mapping; the answer is the same whatever the resolver of effective
  capabilities would return, so no capability is resolved for it.
\<close>

theorem check_rpc_authorization_default_open:
  assumes "authz_manager s = Some st"
    and "map_of (agents st) ident = None
         \<or> (\<exists>a. map_of (agents st) ident = Some a \<and> protected_rpcs a = {})"
  shows "fst (check_rpc_authorization (policy_manager rx) ident method_name method_args s)
           = Inr True
     \<and> (\<forall>resolve. check_rpc_authorization_with resolve rx st ident method_name method_args)"
proof -
  have "ps_get_protected_rpcs st ident = {}"
    using assms(2) by (auto simp: ps_get_protected_rpcs_def authz_of_def)
  then show ?thesis
    using assms(1)
    by (simp add: check_rpc_authorization_def policy_manager_simps
        ps_check_rpc_authorization_def check_rpc_authorization_with_def)
qed

text \<open>
  Claim C1, instance: the identity \<open>agent2\<close> has no record in the running policy, and
  a call of the protected method name \<open>m\<close> on its behalf is authorized.
\<close>

theorem check_rpc_authorization_default_open_witness:
  "fst (check_rpc_authorization (policy_manager toy_regex) ''agent2'' ''m'' Map.empty
          running_service) = Inr True"
  using check_rpc_authorization_default_open
    [OF running_manager, of "''agent2''" toy_regex "''m''" Map.empty]
  by (simp add: running_policy_lookups)

text \<open>
  Claim C2 as stated fails. The agent \<open>agent1\<close> is connected and \<open>m\<close> is already
  in its protected set; a call that assigns it a role and names \<open>m\<close> again leaves the
  protected set as it was, and the remote call is issued all the same.
\<close>

theorem push_without_change_counterexample:
  "{''m''} \<subseteq> ps_get_protected_rpcs running_policy ''agent1''
   \<and> fst (get_protected_rpcs (policy_manager toy_regex) ''agent1''
          (snd (create_or_merge_agent_authz (policy_manager toy_regex) (\<lambda>c. None) ''agent1''
                  (Some {''m''}) (Some [AgentRole ''admin'' []]) None None None
                  running_service)))
       = Inr (ps_get_protected_rpcs running_policy ''agent1'')
   \<and> rpc_calls running_service = []
   \<and> rpc_calls
         (snd (create_or_merge_agent_authz (policy_manager toy_regex) (\<lambda>c. None) ''agent1''
                  (Some {''m''}) (Some [AgentRole ''admin'' []]) None None None
                  running_service))
       = [\<lparr>peer = ''agent1'', rpc_method = ''rpc.add_protected_rpcs'', rpc_args = {''m''},
           timeout = 5\<rparr>]"
  by (simp add: create_or_merge_agent_authz_def running_service_def policy_manager_simps
      merge_authz_plain get_protected_rpcs_def ps_get_protected_rpcs_def authz_of_update
      running_policy_lookups add_protected_rpcs_call_def)

text \<open>
  Claim C2, amended. With a manager configured, \<open>create_or_merge_agent_authz\<close>
  issues the remote call \<open>rpc.add_protected_rpcs\<close> (with the protected_rpcs of the call
  and a timeout of 5 seconds) exactly when the merge returned true, the protected_rpcs
  argument is given and not empty, and the identity is among the connected peers; it
  issues no other remote call.
\<close>

theorem create_or_merge_agent_authz_push:
  assumes "authz_manager s = Some az"
  shows "rpc_calls
           (snd (create_or_merge_agent_authz M env ident prot ars rpc pubsub cmt s))
         = rpc_calls s
           @ (if fst (m_create_or_merge_agent_authz M ident prot ars rpc pubsub cmt az)
                   = Inr True
                 \<and> truthy prot \<and> ident \<in> set (peers_list s)
              then [\<lparr>peer = ident, rpc_method = ''rpc.add_protected_rpcs'',
                      rpc_args = set_arg prot, timeout = 5\<rparr>]
              else [])"
  using assms
  by (auto simp: create_or_merge_agent_authz_def add_protected_rpcs_call_def
      split: prod.splits sum.splits option.splits)

text \<open>
  Claim C2, instance: a new protected method for the connected \<open>agent1\<close> is pushed.
\<close>

theorem create_or_merge_agent_authz_push_witness:
  "rpc_calls
     (snd (create_or_merge_agent_authz (policy_manager toy_regex) (\<lambda>c. None) ''agent1''
             (Some {''n''}) None None None None running_service))
   = [\<lparr>peer = ''agent1'', rpc_method = ''rpc.add_protected_rpcs'', rpc_args = {''n''},
       timeout = 5\<rparr>]"
  using create_or_merge_agent_authz_push
    [OF running_manager, of "policy_manager toy_regex" "\<lambda>c. None" "''agent1''"
       "Some {''n''}" None None None None]
  by (simp add: policy_manager_simps merge_authz_plain running_service_def)

text \<open>
  Claim C3. When the merge has succeeded, the identity is connected and the remote call
  fails with \<open>RemoteError\<close>, \<open>create_or_merge_agent_authz\<close> does not return: an
  error is raised (the \<open>TypeError\<close> of raising a tuple), and the manager is left in
  the state after the merge.
\<close>

theorem remote_error_is_raised:
  assumes "authz_manager s = Some az"
    and "fst (m_create_or_merge_agent_authz M ident prot ars rpc pubsub cmt az) = Inr True"
    and "truthy prot"
    and "ident \<in> set (peers_list s)"
    and "env (add_protected_rpcs_call ident (set_arg prot)) = Some RemoteError"
  shows "fst (create_or_merge_agent_authz M env ident prot ars rpc pubsub cmt s)
           = Inl TypeError
     \<and> authz_manager (snd (create_or_merge_agent_authz M env ident prot ars rpc pubsub cmt s))
           = Some (snd (m_create_or_merge_agent_authz M ident prot ars rpc pubsub cmt az))"
  using assms
  by (auto simp: create_or_merge_agent_authz_def split: prod.splits sum.splits)

text \<open>
  Claim C3, instance: protecting \<open>n\<close> for the connected \<open>agent1\<close>, whose peer
  answers with \<open>RemoteError\<close>, raises, and \<open>n\<close> is protected in the store
  afterwards.
\<close>

theorem remote_error_is_raised_witness:
  "fst (create_or_merge_agent_authz (policy_manager toy_regex) (\<lambda>c. Some RemoteError)
          ''agent1'' (Some {''n''}) None None None None running_service) = Inl TypeError
   \<and> fst (get_protected_rpcs (policy_manager toy_regex) ''agent1''
            (snd (create_or_merge_agent_authz (policy_manager toy_regex)
                    (\<lambda>c. Some RemoteError) ''agent1'' (Some {''n''}) None None None None
                    running_service)))
       = Inr {''m'', ''n''}"
proof -
  have h: "fst (m_create_or_merge_agent_authz (policy_manager toy_regex) ''agent1''
      (Some {''n''}) None None None None running_policy) = Inr True"
    by (simp add: policy_manager_simps merge_authz_plain)
  have p: "''agent1'' \<in> set (peers_list running_service)"
    by (simp add: running_service_def)
  from remote_error_is_raised [OF running_manager h _ p, of "\<lambda>c. Some RemoteError"]
  show ?thesis
    by (auto simp: get_protected_rpcs_def policy_manager_simps merge_authz_plain
        ps_get_protected_rpcs_def authz_of_update running_policy_lookups)
qed

text \<open>
  Claim C4. When the merge has returned and the identity is not connected, or the remote
  call fails with \<open>Unreachable\<close>, \<open>create_or_merge_agent_authz\<close> returns the
  result of the merge and raises nothing; the manager is in the state after the merge.
\<close>

theorem unreachable_is_not_an_error:
  assumes "authz_manager s = Some az"
    and "fst (m_create_or_merge_agent_authz M ident prot ars rpc pubsub cmt az) = Inr result"
    and "ident \<notin> set (peers_list s)
         \<or> env (add_protected_rpcs_call ident (set_arg prot)) = Some Unreachable"
  shows "fst (create_or_merge_agent_authz M env ident prot ars rpc pubsub cmt s)
           = Inr result
     \<and> authz_manager (snd (create_or_merge_agent_authz M env ident prot ars rpc pubsub cmt s))
           = Some (snd (m_create_or_merge_agent_authz M ident prot ars rpc pubsub cmt az))"
  using assms
  by (auto simp: create_or_merge_agent_authz_def split: prod.splits sum.splits)

text \<open>
  Claim C4, instances: a new protected method for \<open>agent2\<close>, which is not connected,
  and for \<open>agent1\<close>, whose peer is unreachable; both calls return true.
\<close>

theorem unreachable_is_not_an_error_witness:
  "fst (create_or_merge_agent_authz (policy_manager toy_regex) (\<lambda>c. None)
          ''agent2'' (Some {''n''}) None None None None running_service) = Inr True
   \<and> fst (create_or_merge_agent_authz (policy_manager toy_regex) (\<lambda>c. Some Unreachable)
          ''agent1'' (Some {''n''}) None None None None running_service) = Inr True"
proof -
  have h: "fst (m_create_or_merge_agent_authz (policy_manager toy_regex) k
      (Some {''n''}) None None None None running_policy) = Inr True" for k
    by (simp add: policy_manager_simps merge_authz_plain)
  have p: "''agent2'' \<notin> set (peers_list running_service)"
    by (simp add: running_service_def)
  from unreachable_is_not_an_error [OF running_manager h, of "''agent2''" "\<lambda>c. None"]
    unreachable_is_not_an_error [OF running_manager h, of "''agent1''" "\<lambda>c. Some Unreachable"]
    p
  show ?thesis by simp
qed

text \<open>
  Claim C5. \<open>remove_agent\<close> removes the credentials first. If that fails, the error
  is the outcome and the manager is left as it was; the authorization record is
  touched only when the removal of the credentials has returned, and then the
  credentials store is the one that removal left behind.
\<close>

theorem remove_agent_credentials_first:
  "(\<forall>e. fst (remove_credentials C ident (credentials_store s)) = Inl e \<longrightarrow>
        fst (remove_agent C M ident s) = Inl e
        \<and> authz_manager (snd (remove_agent C M ident s)) = authz_manager s)
   \<and> credentials_store (snd (remove_agent C M ident s))
       = snd (remove_credentials C ident (credentials_store s))
   \<and> (\<forall>u az. fst (remove_credentials C ident (credentials_store s)) = Inr u
          \<and> authz_manager s = Some az \<longrightarrow>
        authz_manager (snd (remove_agent C M ident s))
          = Some (snd (m_remove_agent_authorization M ident az))
        \<and> fst (remove_agent C M ident s)
          = (case fst (m_remove_agent_authorization M ident az) of
               Inl e \<Rightarrow> Inl e
             | Inr r \<Rightarrow> Inr True))"
  by (auto simp: remove_agent_def split: prod.splits sum.splits option.splits)

text \<open>
  Claim C5, instance: no credentials are stored for \<open>ghost\<close>, so their removal
  fails; \<open>remove_agent\<close> fails with the same error and the policy is untouched.
\<close>

theorem remove_agent_credentials_first_witness:
  "fst (remove_agent stored_credentials (policy_manager toy_regex) ''ghost'' running_service)
     = Inl IdentityNotFound
   \<and> authz_manager
       (snd (remove_agent stored_credentials (policy_manager toy_regex) ''ghost''
               running_service))
     = Some running_policy"
proof -
  have h: "fst (remove_credentials stored_credentials ''ghost''
      (credentials_store running_service)) = Inl IdentityNotFound"
    by (simp add: stored_credentials_def running_service_def)
  from remove_agent_credentials_first
    [of stored_credentials "''ghost''" running_service "policy_manager toy_regex"] h
  show ?thesis by (simp add: running_manager)
qed



text \<open>
  Claim C7. When the manager reports an empty capability set for the identity and
  \<open>create_agent\<close> returns, it returns true and the manager has merged, for that
  identity, the role assignment \<open>default_rpc_capabilities\<close> with param_restrictions
  binding \<open>identity\<close> to the identity itself, and the protected_rpcs
  \<open>config.update\<close>, \<open>config.initial_update\<close>, \<open>rpc.add_protected_rpcs\<close> and
  \<open>rpc.remove_protected_rpcs\<close>.
\<close>

theorem create_agent_first_provisioning:
  assumes "authz_manager s = Some az"
    and "m_get_agent_capabilities M ident az = (Inr {}, az1)"
    and "fst (create_agent C M ident s) = Inr b"
  shows "b
     \<and> (\<exists>r. fst (m_create_or_merge_agent_authz M ident
                   (Some {''config.update'', ''config.initial_update'',
                          ''rpc.add_protected_rpcs'', ''rpc.remove_protected_rpcs''})
                   (Some [AgentRole ''default_rpc_capabilities'' [(''identity'', ident)]])
                   None None (Some ''default authorization for new user'') az1) = Inr r)
     \<and> authz_manager (snd (create_agent C M ident s))
         = Some (snd (m_create_or_merge_agent_authz M ident
                   (Some {''config.update'', ''config.initial_update'',
                          ''rpc.add_protected_rpcs'', ''rpc.remove_protected_rpcs''})
                   (Some [AgentRole ''default_rpc_capabilities'' [(''identity'', ident)]])
                   None None (Some ''default authorization for new user'') az1))"
  using assms
  by (auto simp: create_agent_def default_protected_rpcs_def
      split: prod.splits sum.splits option.splits if_splits)

text \<open>
  Claim C7, instance: \<open>agent2\<close> has no capabilities in the running policy; after
  \<open>create_agent\<close> its protected methods are the four self-management methods.
\<close>

theorem create_agent_first_provisioning_witness:
  "fst (get_protected_rpcs (policy_manager toy_regex) ''agent2''
          (snd (create_agent stored_credentials (policy_manager toy_regex) ''agent2''
                  running_service)))
   = Inr {''config.update'', ''config.initial_update'', ''rpc.add_protected_rpcs'',
          ''rpc.remove_protected_rpcs''}"
proof -
  have h1: "m_get_agent_capabilities (policy_manager toy_regex) ''agent2'' running_policy
      = (Inr {}, running_policy)"
    by (simp add: policy_manager_simps running_policy_lookups)
  have h2: "fst (create_agent stored_credentials (policy_manager toy_regex) ''agent2''
      running_service) = Inr True"
    by (simp add: create_agent_concrete [OF running_manager])
  from create_agent_first_provisioning [OF running_manager h1 h2]
  show ?thesis
    by (simp add: get_protected_rpcs_def policy_manager_simps merge_authz_plain
        ps_get_protected_rpcs_def authz_of_update)
       (simp add: authz_of_def running_policy_lookups)
qed

text \<open>
  Claim C8. After a bootstrap that returned, with the Policy Store as manager, the
  protected_rpcs of the AUTH identity are those it had before together with its twelve
  policy-mutation methods, so they are not empty, and they are exactly these twelve when
  none was recorded before. Of the other reserved identities, the configuration store
  receives its six configuration methods and every other one receives nothing.
\<close>

theorem bootstrap_protected_rpcs:
  assumes "authz_manager s = Some st"
    and "fst (init C (policy_manager rx) K s) = Inr creds"
    and "AUTH K \<noteq> CONFIGURATION_STORE K"
  shows "fst (get_protected_rpcs (policy_manager rx) (AUTH K)
                (snd (init C (policy_manager rx) K s)))
           = Inr (ps_get_protected_rpcs st (AUTH K) \<union> auth_protected_rpcs)
     \<and> fst (get_protected_rpcs (policy_manager rx) (AUTH K)
                (snd (init C (policy_manager rx) K s))) \<noteq> Inr {}
     \<and> auth_protected_rpcs =
         {''create_agent'', ''remove_agent'', ''create_or_merge_role'',
          ''create_or_merge_agent_group'', ''create_or_merge_agent_authz'',
          ''create_protected_topics'', ''remove_agents_from_group'', ''add_agents_to_group'',
          ''remove_protected_topics'', ''remove_agent_authorization'',
          ''remove_agent_group'', ''remove_role''}
     \<and> (ps_get_protected_rpcs st (AUTH K) = {} \<longrightarrow>
          fst (get_protected_rpcs (policy_manager rx) (AUTH K)
                 (snd (init C (policy_manager rx) K s))) = Inr auth_protected_rpcs)
     \<and> (\<forall>k \<in> set (volttron_services K). k \<noteq> AUTH K \<longrightarrow>
          fst (get_protected_rpcs (policy_manager rx) k
                 (snd (init C (policy_manager rx) K s)))
            = Inr (ps_get_protected_rpcs st k
                   \<union> (if k = CONFIGURATION_STORE K
                      then {''set_config'', ''delete_config'', ''delete_store'',
                            ''initialize_configs'', ''config_update'', ''initial_config''}
                      else {})))"
proof -
  from init_policy_success [OF assms(1,2)] obtain st' where
    seed: "seed_default_policy (policy_manager rx) K st = (Inr (), st')"
    and after: "authz_manager (snd (init C (policy_manager rx) K s)) = Some st'"
    by blast
  from seed_default_policy_policy [OF seed_success_compiles [OF seed], of K st] seed
  have p: "ps_get_protected_rpcs st' x =
            ps_get_protected_rpcs st x
            \<union> (if x = CONFIGURATION_STORE K then config_store_protected_rpcs else {})
            \<union> (if x = AUTH K then auth_protected_rpcs else {})" for x
    by auto
  have g: "fst (get_protected_rpcs (policy_manager rx) x
                  (snd (init C (policy_manager rx) K s)))
      = Inr (ps_get_protected_rpcs st' x)" for x
    by (simp add: get_protected_rpcs_def after policy_manager_simps)
  have ne: "auth_protected_rpcs \<noteq> {}" by (simp add: auth_protected_rpcs_def)
  have c1: "fst (get_protected_rpcs (policy_manager rx) (AUTH K)
                (snd (init C (policy_manager rx) K s)))
           = Inr (ps_get_protected_rpcs st (AUTH K) \<union> auth_protected_rpcs)"
    using assms(3) by (simp add: g p)
  have c2: "fst (get_protected_rpcs (policy_manager rx) (AUTH K)
                (snd (init C (policy_manager rx) K s))) \<noteq> Inr {}"
    unfolding c1 using ne by simp
  have c4: "\<forall>k \<in> set (volttron_services K). k \<noteq> AUTH K \<longrightarrow>
          fst (get_protected_rpcs (policy_manager rx) k
                 (snd (init C (policy_manager rx) K s)))
            = Inr (ps_get_protected_rpcs st k
                   \<union> (if k = CONFIGURATION_STORE K
                      then {''set_config'', ''delete_config'', ''delete_store'',
                            ''initialize_configs'', ''config_update'', ''initial_config''}
                      else {}))"
    by (simp add: g p config_store_protected_rpcs_def)
  have c3: "ps_get_protected_rpcs st (AUTH K) = {} \<longrightarrow>
          fst (get_protected_rpcs (policy_manager rx) (AUTH K)
                 (snd (init C (policy_manager rx) K s))) = Inr auth_protected_rpcs"
    unfolding c1 by simp
  note l = auth_protected_rpcs_def
  from c1 c2 l c3 c4 show ?thesis by (intro conjI)
qed

text \<open>
  Claim C8, instance: the first start of the platform. AUTH protects exactly its twelve
  methods, the configuration store its six, and \<open>control\<close> none.
\<close>

theorem bootstrap_protected_rpcs_witness:
  "fst (get_protected_rpcs (policy_manager toy_regex) ''platform.auth''
          (snd (init stored_credentials (policy_manager toy_regex) platform_identities
                  fresh_service)))
     = Inr auth_protected_rpcs
   \<and> fst (get_protected_rpcs (policy_manager toy_regex) ''config.store''
          (snd (init stored_credentials (policy_manager toy_regex) platform_identities
                  fresh_service)))
     = Inr config_store_protected_rpcs
   \<and> fst (get_protected_rpcs (policy_manager toy_regex) ''control''
          (snd (init stored_credentials (policy_manager toy_regex) platform_identities
                  fresh_service)))
     = Inr {}"
proof -
  obtain c where h1: "fst (init stored_credentials (policy_manager toy_regex)
      platform_identities fresh_service) = Inr c"
    using init_concrete_ok [OF fresh_manager toy_compiles] by blast
  have h2: "AUTH platform_identities \<noteq> CONFIGURATION_STORE platform_identities"
    by (simp add: platform_identities_def)
  note main = bootstrap_protected_rpcs [OF fresh_manager h1 h2]
  have ids: "AUTH platform_identities = ''platform.auth''"
    "CONFIGURATION_STORE platform_identities = ''config.store''"
    "''config.store'' \<in> set (volttron_services platform_identities)"
    "''control'' \<in> set (volttron_services platform_identities)"
    by (simp_all add: platform_identities_def volttron_services_def)
  have a: "fst (get_protected_rpcs (policy_manager toy_regex) ''platform.auth''
          (snd (init stored_credentials (policy_manager toy_regex) platform_identities
                  fresh_service))) = Inr auth_protected_rpcs"
    using main [THEN conjunct1] by (simp add: ids empty_policy_lookups)
  have rest: "\<forall>k \<in> set (volttron_services platform_identities). k \<noteq> ''platform.auth'' \<longrightarrow>
          fst (get_protected_rpcs (policy_manager toy_regex) k
                 (snd (init stored_credentials (policy_manager toy_regex) platform_identities
                  fresh_service)))
            = Inr (if k = ''config.store'' then config_store_protected_rpcs else {})"
    using main [THEN conjunct2, THEN conjunct2, THEN conjunct2, THEN conjunct2]
    by (simp only: ids empty_policy_lookups Un_empty_left
        config_store_protected_rpcs_def [symmetric])
  have b: "fst (get_protected_rpcs (policy_manager toy_regex) ''config.store''
          (snd (init stored_credentials (policy_manager toy_regex) platform_identities
                  fresh_service))) = Inr config_store_protected_rpcs"
    using rest [THEN bspec, OF ids(3)] by simp
  have c: "fst (get_protected_rpcs (policy_manager toy_regex) ''control''
          (snd (init stored_credentials (policy_manager toy_regex) platform_identities
                  fresh_service))) = Inr {}"
    using rest [THEN bspec, OF ids(4)] by simp
  from a b c show ?thesis by (intro conjI)
qed

text \<open>
  Claim C9. A bootstrap that returned, with the Policy Store as manager, has added
  exactly the role names \<open>default_rpc_capabilities\<close>, \<open>sync_agent_config\<close> and
  \<open>admin\<close>: the first holds the four configuration-store capabilities, the second the
  two configuration-sync capabilities, the third the RPC pattern \<open>/.*/\<close> and the
  pubsub pattern \<open>/.*/\<close> with access \<open>pubsub\<close>. The group \<open>admin_users\<close> has all
  reserved identities as members and the role \<open>admin\<close> among its assignments.
\<close>

theorem bootstrap_default_roles:
  assumes "authz_manager s = Some st"
    and "fst (init C (policy_manager rx) K s) = Inr creds"
  shows "\<exists>st'. authz_manager (snd (init C (policy_manager rx) K s)) = Some st'
     \<and> fst ` set (roles st') =
         fst ` set (roles st) \<union> {''default_rpc_capabilities'', ''sync_agent_config'', ''admin''}
     \<and> role_of st' ''default_rpc_capabilities'' =
         \<lparr>role_rpc_capabilities =
            role_rpc_capabilities (role_of st ''default_rpc_capabilities'')
            \<union> {RPCCapability (CONFIGURATION_STORE K @ ''.initialize_configs'') [],
               RPCCapability (CONFIGURATION_STORE K @ ''.set_config'') [],
               RPCCapability (CONFIGURATION_STORE K @ ''.delete_store'') [],
               RPCCapability (CONFIGURATION_STORE K @ ''.delete_config'') []},
          role_pubsub_capabilities =
            role_pubsub_capabilities (role_of st ''default_rpc_capabilities'')\<rparr>
     \<and> role_of st' ''sync_agent_config'' =
         \<lparr>role_rpc_capabilities =
            role_rpc_capabilities (role_of st ''sync_agent_config'')
            \<union> {RPCCapability ''config.store.config_update'' [],
               RPCCapability ''config.store.initial_update'' []},
          role_pubsub_capabilities = role_pubsub_capabilities (role_of st ''sync_agent_config'')\<rparr>
     \<and> role_of st' ''admin'' =
         \<lparr>role_rpc_capabilities =
            role_rpc_capabilities (role_of st ''admin'') \<union> {RPCCapability ''/.*/'' []},
          role_pubsub_capabilities =
            role_pubsub_capabilities (role_of st ''admin'')
            \<union> {PubsubCapability ''/.*/'' ''pubsub''}\<rparr>
     \<and> identities (group_of st' ''admin_users'') =
         identities (group_of st ''admin_users'') \<union> set (volttron_services K)
     \<and> group_roles (group_of st' ''admin_users'') =
         group_roles (group_of st ''admin_users'') \<union> {AgentRole ''admin'' []}
     \<and> fst ` set (agent_groups st') = fst ` set (agent_groups st) \<union> {''admin_users''}"
proof -
  from init_policy_success [OF assms] obtain st' where
    seed: "seed_default_policy (policy_manager rx) K st = (Inr (), st')"
    and after: "authz_manager (snd (init C (policy_manager rx) K s)) = Some st'"
    by blast
  from seed_default_policy_policy [OF seed_success_compiles [OF seed], of K st]
  obtain st'' where
    seed': "seed_default_policy (policy_manager rx) K st = (Inr (), st'')"
    and r1: "role_of st'' ''default_rpc_capabilities'' =
         \<lparr>role_rpc_capabilities =
            role_rpc_capabilities (role_of st ''default_rpc_capabilities'')
            \<union> set (default_rpc_capabilities_role K),
          role_pubsub_capabilities =
            role_pubsub_capabilities (role_of st ''default_rpc_capabilities'')\<rparr>"
    and r2: "role_of st'' ''sync_agent_config'' =
         \<lparr>role_rpc_capabilities =
            role_rpc_capabilities (role_of st ''sync_agent_config'') \<union> set sync_agent_config_role,
          role_pubsub_capabilities = role_pubsub_capabilities (role_of st ''sync_agent_config'')\<rparr>"
    and r3: "role_of st'' ''admin'' =
         \<lparr>role_rpc_capabilities =
            role_rpc_capabilities (role_of st ''admin'') \<union> {RPCCapability ''/.*/'' []},
          role_pubsub_capabilities =
            role_pubsub_capabilities (role_of st ''admin'')
            \<union> {PubsubCapability ''/.*/'' ''pubsub''}\<rparr>"
    and d: "fst ` set (roles st'') =
         fst ` set (roles st) \<union> {''default_rpc_capabilities'', ''sync_agent_config'', ''admin''}"
    and g: "group_of st'' ''admin_users'' =
         \<lparr>identities = identities (group_of st ''admin_users'') \<union> set (volttron_services K),
          group_roles = group_roles (group_of st ''admin_users'') \<union> {AgentRole ''admin'' []},
          group_rpc_capabilities = group_rpc_capabilities (group_of st ''admin_users''),
          group_pubsub_capabilities = group_pubsub_capabilities (group_of st ''admin_users'')\<rparr>"
    and dg: "fst ` set (agent_groups st'') = fst ` set (agent_groups st) \<union> {''admin_users''}"
    by (elim exE conjE) (rule that)
  from seed seed' have same: "st'' = st'" by simp
  have l1: "set (default_rpc_capabilities_role K) =
      {RPCCapability (CONFIGURATION_STORE K @ ''.initialize_configs'') [],
       RPCCapability (CONFIGURATION_STORE K @ ''.set_config'') [],
       RPCCapability (CONFIGURATION_STORE K @ ''.delete_store'') [],
       RPCCapability (CONFIGURATION_STORE K @ ''.delete_config'') []}"
    by (simp add: default_rpc_capabilities_role_def)
  have l2: "set sync_agent_config_role =
      {RPCCapability ''config.store.config_update'' [],
       RPCCapability ''config.store.initial_update'' []}"
    by (simp add: sync_agent_config_role_def)
  have gi: "identities (group_of st' ''admin_users'') =
         identities (group_of st ''admin_users'') \<union> set (volttron_services K)"
    and gr: "group_roles (group_of st' ''admin_users'') =
         group_roles (group_of st ''admin_users'') \<union> {AgentRole ''admin'' []}"
    using g unfolding same by simp_all
  from after d r1 r2 r3 gi gr dg show ?thesis
    unfolding same l1 l2 by (intro exI [of _ st'] conjI)
qed

text \<open>
  Claim C9, instance: the first start of the platform seeds the three roles and the
  group on the empty store.
\<close>

theorem bootstrap_default_roles_witness:
  "\<exists>st'. authz_manager
            (snd (init stored_credentials (policy_manager toy_regex) platform_identities
                    fresh_service)) = Some st'
     \<and> fst ` set (roles st') = {''default_rpc_capabilities'', ''sync_agent_config'', ''admin''}
     \<and> role_of st' ''admin'' =
         \<lparr>role_rpc_capabilities = {RPCCapability ''/.*/'' []},
          role_pubsub_capabilities = {PubsubCapability ''/.*/'' ''pubsub''}\<rparr>
     \<and> identities (group_of st' ''admin_users'') =
         {''config.store'', ''platform.auth'', ''control.connection'', ''control'',
          ''platform'', ''platform.health''}
     \<and> group_roles (group_of st' ''admin_users'') = {AgentRole ''admin'' []}"
proof -
  obtain c where h1: "fst (init stored_credentials (policy_manager toy_regex)
      platform_identities fresh_service) = Inr c"
    using init_concrete_ok [OF fresh_manager toy_compiles] by blast
  from bootstrap_default_roles [OF fresh_manager h1] obtain st' where
    a: "authz_manager
            (snd (init stored_credentials (policy_manager toy_regex) platform_identities
                    fresh_service)) = Some st'"
    and d: "fst ` set (roles st') =
         fst ` set (roles empty_policy_store)
         \<union> {''default_rpc_capabilities'', ''sync_agent_config'', ''admin''}"
    and r3: "role_of st' ''admin'' =
         \<lparr>role_rpc_capabilities =
            role_rpc_capabilities (role_of empty_policy_store ''admin'')
            \<union> {RPCCapability ''/.*/'' []},
          role_pubsub_capabilities =
            role_pubsub_capabilities (role_of empty_policy_store ''admin'')
            \<union> {PubsubCapability ''/.*/'' ''pubsub''}\<rparr>"
    and gi: "identities (group_of st' ''admin_users'') =
         identities (group_of empty_policy_store ''admin_users'')
         \<union> set (volttron_services platform_identities)"
    and gr: "group_roles (group_of st' ''admin_users'') =
         group_roles (group_of empty_policy_store ''admin_users'') \<union> {AgentRole ''admin'' []}"
    by (elim exE conjE) (rule that)
  have s: "set (volttron_services platform_identities) =
      {''config.store'', ''platform.auth'', ''control.connection'', ''control'',
       ''platform'', ''platform.health''}"
    by (simp add: volttron_services_def platform_identities_def)
  from a d r3 gi gr show ?thesis
    unfolding s empty_policy_lookups by (intro exI [of _ st']) simp
qed

text \<open>
  Claim C10. \<open>isregex s\<close> is true exactly when \<open>s\<close> is longer than one character
  and both its first and its last character are the slash; the one-character string
  \<open>"/"\<close> and the empty string are therefore literal patterns.
\<close>

theorem isregex_iff:
  "(isregex s \<longleftrightarrow> length s > 1 \<and> hd s = CHR ''/'' \<and> last s = CHR ''/'')
   \<and> \<not> isregex ''/'' \<and> \<not> isregex ''''"
proof -
  have "isregex s \<longleftrightarrow> length s > 1 \<and> hd s = CHR ''/'' \<and> last s = CHR ''/''"
  proof (cases "length s > 1")
    case True
    then have ne: "s \<noteq> []" by auto
    from ne have "hd s = s ! 0" by (simp add: hd_conv_nth)
    moreover from ne have "last s = s ! (length s - 1)" by (simp add: last_conv_nth)
    ultimately show ?thesis using True by (auto simp: isregex_def)
  next
    case False
    then show ?thesis by (simp add: isregex_def)
  qed
  moreover have "\<not> isregex ''/''" by (simp add: isregex_def)
  moreover have "\<not> isregex ''''" by (simp add: isregex_def)
  ultimately show ?thesis by blast
qed

end
